theory Spec2Isabelle
  imports Complex_Main
begin

section \<open>Python values, text and exceptions\<close>

text \<open>
  The formatter of \<^verbatim>\<open>metadata_extractor.py\<close> is embedded function by function.
  A Python \<^verbatim>\<open>str\<close> is a \<^typ>\<open>string\<close>: ASCII characters are themselves, and a
  character outside ASCII is carried as the bytes of its UTF-8 encoding. Python's
  character classes (whitespace, letters, digits, word characters) are written out for
  ASCII; a byte above 127 belongs to none of them, which is what Python answers for the
  pictographs of the section titles.

  An exception is a value: every function that can raise returns
  \<^typ>\<open>'e + 'a\<close> with the exception on the left.
\<close>

datatype pyexc =
    ZeroDivisionError
  | TypeError
  | ValueError
  | OverflowError
  | AttributeError
  | UnicodeDecodeError
  | Other string

text \<open>
  A value of an EXIF record: a string, an integer, or a non-integer number object (a
  float, or the rational that the image library returns for rational tags). The number is
  read as the exact rational it denotes; the text that \<^verbatim>\<open>format()\<close> gives for it depends
  on its class and is carried with it.
\<close>

datatype pyval = PStr string | PInt int | PNum rat string

text \<open>
  A dict is the list of its items; \<^verbatim>\<open>key in d\<close> and \<^verbatim>\<open>d[key]\<close> read it through
  \<^const>\<open>map_of\<close>, and the empty dict is the empty list.
\<close>

type_synonym exif = "(string \<times> pyval) list"
type_synonym xmp = "(string \<times> string) list"

abbreviation NL :: char where
  "NL \<equiv> CHR 0x0A"

definition is_space :: "char \<Rightarrow> bool" where
  \<comment> \<open>\<^verbatim>\<open>str.isspace\<close> on ASCII: tab, LF, VT, FF, CR, the separators 0x1C..0x1F, space\<close>
  "is_space c = (let n = (of_char c :: nat) in (9 \<le> n \<and> n \<le> 13) \<or> (28 \<le> n \<and> n \<le> 32))"

definition py_lstrip :: "string \<Rightarrow> string" where
  "py_lstrip s = dropWhile is_space s"

definition py_rstrip :: "string \<Rightarrow> string" where
  "py_rstrip s = rev (dropWhile is_space (rev s))"

definition py_strip :: "string \<Rightarrow> string" where
  \<comment> \<open>\<^verbatim>\<open>s.strip()\<close>\<close>
  "py_strip s = py_rstrip (py_lstrip s)"

definition digit_char :: "nat \<Rightarrow> char" where
  "digit_char d = ''0123456789'' ! d"

function decimal :: "int \<Rightarrow> string" where
  \<comment> \<open>the decimal digits of an integer that is not negative\<close>
  "decimal n = (if n < 10 then [digit_char (nat n)] else decimal (n div 10) @ [digit_char (nat (n mod 10))])"
  by pat_completeness auto
termination
  by (relation "measure nat") auto

declare decimal.simps [simp del]

definition show_int :: "int \<Rightarrow> string" where
  \<comment> \<open>\<^verbatim>\<open>str(i)\<close> of a Python int\<close>
  "show_int i = (if i < 0 then CHR ''-'' # decimal (- i) else decimal i)"

fun py_format :: "pyval \<Rightarrow> string" where
  \<comment> \<open>what an f-string inserts for \<^verbatim>\<open>{v}\<close>\<close>
  "py_format (PStr s) = s"
| "py_format (PInt i) = show_int i"
| "py_format (PNum q txt) = txt"

fun py_lt_one :: "pyval \<Rightarrow> pyexc + bool" where
  \<comment> \<open>\<^verbatim>\<open>v < 1\<close>; a str does not compare with an int\<close>
  "py_lt_one (PStr s) = Inl TypeError"
| "py_lt_one (PInt i) = Inr (i < 1)"
| "py_lt_one (PNum q txt) = Inr (q < 1)"

fun py_one_over :: "pyval \<Rightarrow> pyexc + rat" where
  \<comment> \<open>\<^verbatim>\<open>1 / v\<close>, true division\<close>
  "py_one_over (PStr s) = Inl TypeError"
| "py_one_over (PInt i) = (if i = 0 then Inl ZeroDivisionError else Inr (1 / of_int i))"
| "py_one_over (PNum q txt) = (if q = 0 then Inl ZeroDivisionError else Inr (1 / q))"

definition py_int :: "rat \<Rightarrow> int" where
  \<comment> \<open>\<^verbatim>\<open>int(x)\<close> of a number: truncation toward zero\<close>
  "py_int q = (if 0 \<le> q then \<lfloor>q\<rfloor> else \<lceil>q\<rceil>)"

definition round_half_even :: "rat \<Rightarrow> int" where
  \<comment> \<open>to the nearest integer, a tie to the even one\<close>
  "round_half_even q =
     (let f = \<lfloor>q\<rfloor>; d = q - of_int f
      in if d < 1 / 2 then f else if 1 / 2 < d then f + 1 else if even f then f else f + 1)"


section \<open>The settings section\<close>

definition shutter_text :: "pyval \<Rightarrow> pyexc + string" where
  \<comment> \<open>the conditional expression appended for \<^verbatim>\<open>ExposureTime\<close>\<close>
  "shutter_text shutter_speed =
     (case py_lt_one shutter_speed of
        Inl e \<Rightarrow> Inl e
      | Inr True \<Rightarrow>
          (case py_one_over shutter_speed of
             Inl e \<Rightarrow> Inl e
           | Inr r \<Rightarrow> Inr (''Shutter Speed: 1/'' @ show_int (py_int r) @ '' sec'' @ [NL]))
      | Inr False \<Rightarrow> Inr (''Shutter Speed: '' @ py_format shutter_speed @ '' sec'' @ [NL]))"

definition format_settings :: "xmp \<Rightarrow> exif \<Rightarrow> pyexc + string" where
  "format_settings xmp_data exif_data =
     (let output = [];
          output = (case map_of exif_data ''FNumber'' of
                      None \<Rightarrow> output
                    | Some v \<Rightarrow> output @ ''Aperture: f/'' @ py_format v @ [NL])
      in case (case map_of exif_data ''ExposureTime'' of
                 None \<Rightarrow> Inr output
               | Some shutter_speed \<Rightarrow>
                   (case shutter_text shutter_speed of
                      Inl e \<Rightarrow> Inl e
                    | Inr t \<Rightarrow> Inr (output @ t))) of
           Inl e \<Rightarrow> Inl e
         | Inr output \<Rightarrow>
             (let output = (case map_of exif_data ''ISOSpeedRatings'' of
                              None \<Rightarrow> output
                            | Some v \<Rightarrow> output @ ''ISO: '' @ py_format v @ [NL]);
                  output = (case map_of exif_data ''FocalLength'' of
                              None \<Rightarrow> output
                            | Some v \<Rightarrow> output @ ''Focal Length: '' @ py_format v @ '' mm'' @ [NL])
              in Inr (py_strip output)))"



fun num_value :: "pyval \<Rightarrow> rat" where
  "num_value (PStr s) = 0"
| "num_value (PInt i) = of_int i"
| "num_value (PNum q txt) = q"


definition shutter_line :: "pyval \<Rightarrow> string" where
  \<comment> \<open>the shutter speed line of the source, without its newline\<close>
  "shutter_line v =
     (if num_value v < 1
      then ''Shutter Speed: 1/'' @ show_int (py_int (1 / num_value v)) @ '' sec''
      else ''Shutter Speed: '' @ py_format v @ '' sec'')"



section \<open>String methods\<close>

fun split_acc :: "string \<Rightarrow> string \<Rightarrow> string list" where
  "split_acc cur [] = (if cur = [] then [] else [cur])"
| "split_acc cur (c # cs) =
     (if is_space c then (if cur = [] then split_acc [] cs else cur # split_acc [] cs)
      else split_acc (cur @ [c]) cs)"

definition py_split :: "string \<Rightarrow> string list" where
  \<comment> \<open>\<^verbatim>\<open>s.split()\<close>: the maximal runs of characters that are not whitespace\<close>
  "py_split s = split_acc [] s"

fun split_on_acc :: "char \<Rightarrow> string \<Rightarrow> string \<Rightarrow> string list" where
  "split_on_acc sep cur [] = [cur]"
| "split_on_acc sep cur (c # cs) =
     (if c = sep then cur # split_on_acc sep [] cs else split_on_acc sep (cur @ [c]) cs)"

definition py_split_on :: "char \<Rightarrow> string \<Rightarrow> string list" where
  \<comment> \<open>\<^verbatim>\<open>s.split(sep)\<close> for a separator of one character\<close>
  "py_split_on sep s = split_on_acc sep [] s"

definition starts_with :: "string \<Rightarrow> string \<Rightarrow> bool" where
  \<comment> \<open>\<^verbatim>\<open>s.startswith(p)\<close>\<close>
  "starts_with s p = (take (length p) s = p)"

fun py_replace :: "string \<Rightarrow> string \<Rightarrow> string \<Rightarrow> string" where
  \<comment> \<open>\<^verbatim>\<open>s.replace(old, new)\<close> for a non-empty \<open>old\<close>: every occurrence, left to right\<close>
  "py_replace old new [] = []"
| "py_replace old new (c # cs) =
     (if old \<noteq> [] \<and> starts_with (c # cs) old
      then new @ py_replace old new (drop (length old - 1) cs)
      else c # py_replace old new cs)"

definition py_ord :: "char \<Rightarrow> nat" where
  "py_ord c = of_char c"

definition is_upper :: "char \<Rightarrow> bool" where
  \<comment> \<open>\<^verbatim>\<open>[A-Z]\<close>\<close>
  "is_upper c = (65 \<le> py_ord c \<and> py_ord c \<le> 90)"

definition is_lower :: "char \<Rightarrow> bool" where
  \<comment> \<open>\<^verbatim>\<open>[a-z]\<close>\<close>
  "is_lower c = (97 \<le> py_ord c \<and> py_ord c \<le> 122)"

definition is_digit :: "char \<Rightarrow> bool" where
  \<comment> \<open>\<^verbatim>\<open>[0-9]\<close>\<close>
  "is_digit c = (48 \<le> py_ord c \<and> py_ord c \<le> 57)"

definition is_word :: "char \<Rightarrow> bool" where
  \<comment> \<open>the class \<^verbatim>\<open>\w\<close>: letters, digits and the underscore\<close>
  "is_word c = (is_upper c \<or> is_lower c \<or> is_digit c \<or> c = CHR ''_'')"

definition to_lower :: "char \<Rightarrow> char" where
  "to_lower c = (if is_upper c then char_of (py_ord c + 32) else c)"

definition to_upper :: "char \<Rightarrow> char" where
  "to_upper c = (if is_lower c then char_of (py_ord c - 32) else c)"

definition py_lower :: "string \<Rightarrow> string" where
  \<comment> \<open>\<^verbatim>\<open>s.lower()\<close>\<close>
  "py_lower s = map to_lower s"

fun title_from :: "bool \<Rightarrow> string \<Rightarrow> string" where
  \<comment> \<open>the flag says whether the previous character is a cased letter\<close>
  "title_from prev [] = []"
| "title_from prev (c # cs) =
     (if is_upper c \<or> is_lower c
      then (if prev then to_lower c else to_upper c) # title_from True cs
      else c # title_from False cs)"

definition py_title :: "string \<Rightarrow> string" where
  \<comment> \<open>\<^verbatim>\<open>s.title()\<close>: a letter after a letter is lowered, any other letter is raised\<close>
  "py_title s = title_from False s"

section \<open>Regular expressions\<close>

text \<open>
  The three patterns of the source are values of \<open>regex\<close>, matched as Python's \<^verbatim>\<open>re\<close>
  matches them: by backtracking, a greedy repetition trying the longest run first.
  \<open>rmatch r s\<close> lists, in that order of preference, every state in which \<open>r\<close> can end
  when started in \<open>s\<close>; the first one is the match that Python reports. A state holds
  the text before the position, the text from the position on, and the groups captured.
\<close>

datatype regex =
    Cls "char \<Rightarrow> bool"
  | Seq regex regex
  | Plus regex
  | Group nat regex
  | Backref nat
  | WordB

record mstate =
  seen :: string
  rest :: string
  groups :: "nat \<rightharpoonup> string"

function rplus :: "(mstate \<Rightarrow> mstate list) \<Rightarrow> mstate \<Rightarrow> mstate list" where
  \<comment> \<open>one or more rounds of \<open>m\<close>, more rounds first; a round that consumes nothing ends the run\<close>
  "rplus m s =
     concat (map (\<lambda>s'. (if length (rest s') < length (rest s) then rplus m s' else []) @ [s'])
                 (m s))"
  by pat_completeness auto
termination
  by (relation "measure (\<lambda>(m, s). length (rest s))") auto

declare rplus.simps [simp del]

definition at_boundary :: "mstate \<Rightarrow> bool" where
  \<comment> \<open>\<^verbatim>\<open>\b\<close>: a word character on exactly one side of the position\<close>
  "at_boundary s =
     ((seen s \<noteq> [] \<and> is_word (last (seen s))) \<noteq> (rest s \<noteq> [] \<and> is_word (hd (rest s))))"

primrec rmatch :: "regex \<Rightarrow> mstate \<Rightarrow> mstate list" where
  "rmatch (Cls p) s =
     (case rest s of
        [] \<Rightarrow> []
      | c # cs \<Rightarrow> (if p c then [s\<lparr>seen := seen s @ [c], rest := cs\<rparr>] else []))"
| "rmatch (Seq r1 r2) s = concat (map (rmatch r2) (rmatch r1 s))"
| "rmatch (Plus r) s = rplus (rmatch r) s"
| "rmatch (Group n r) s =
     map (\<lambda>s'. s'\<lparr>groups := (groups s')(n \<mapsto> drop (length (seen s)) (seen s'))\<rparr>) (rmatch r s)"
| "rmatch (Backref n) s =
     (case groups s n of
        None \<Rightarrow> []
      | Some g \<Rightarrow>
          (if starts_with (rest s) g
           then [s\<lparr>seen := seen s @ g, rest := drop (length g) (rest s)\<rparr>]
           else []))"
| "rmatch WordB s = (if at_boundary s then [s] else [])"

datatype template_item = Lit string | Ref nat

definition expand :: "template_item list \<Rightarrow> (nat \<rightharpoonup> string) \<Rightarrow> string" where
  \<comment> \<open>the replacement template, a group that did not take part giving the empty string\<close>
  "expand repl gs =
     concat (map (\<lambda>it. case it of Lit t \<Rightarrow> t
                           | Ref n \<Rightarrow> (case gs n of None \<Rightarrow> [] | Some g \<Rightarrow> g)) repl)"

definition match_here :: "regex \<Rightarrow> string \<Rightarrow> string \<Rightarrow> mstate option" where
  \<comment> \<open>the match of \<open>r\<close> that starts after \<open>prior\<close>, if it consumes at least one character\<close>
  "match_here r prior text =
     (case rmatch r \<lparr>seen = prior, rest = text, groups = Map.empty\<rparr> of
        [] \<Rightarrow> None
      | s' # _ \<Rightarrow> (if length (rest s') < length text then Some s' else None))"

function re_sub_from :: "regex \<Rightarrow> template_item list \<Rightarrow> string \<Rightarrow> string \<Rightarrow> string" where
  "re_sub_from r repl prior [] = []"
| "re_sub_from r repl prior (c # cs) =
     (case match_here r prior (c # cs) of
        None \<Rightarrow> c # re_sub_from r repl (prior @ [c]) cs
      | Some s' \<Rightarrow> expand repl (groups s') @ re_sub_from r repl (seen s') (rest s'))"
  by pat_completeness auto
termination
  by (relation "measure (\<lambda>(r, repl, prior, text). length text)")
     (auto simp: match_here_def split: list.splits if_splits)

declare re_sub_from.simps [simp del]

definition re_sub :: "regex \<Rightarrow> template_item list \<Rightarrow> string \<Rightarrow> string" where
  \<comment> \<open>\<^verbatim>\<open>re.sub(pattern, repl, string)\<close> for a pattern that does not match the empty string:
      the leftmost match is replaced and the search goes on after it\<close>
  "re_sub r repl text = re_sub_from r repl [] text"

definition any_char :: "char \<Rightarrow> bool" where
  \<comment> \<open>the class \<^verbatim>\<open>.\<close>: anything but a newline\<close>
  "any_char c = (c \<noteq> NL)"

definition camel_to_standard :: "string \<Rightarrow> string" where
  "camel_to_standard name =
     (let name = re_sub (Seq (Group 1 (Cls any_char))
                             (Group 2 (Seq (Cls is_upper) (Plus (Cls is_lower)))))
                        [Ref 1, Lit '' '', Ref 2] name
      in py_title (re_sub (Seq (Group 1 (Cls (\<lambda>c. is_lower c \<or> is_digit c)))
                               (Group 2 (Cls is_upper)))
                          [Ref 1, Lit '' '', Ref 2] name))"

section \<open>The camera section\<close>

definition duplicate_words :: regex where
  \<comment> \<open>\<^verbatim>\<open>\b(\w+)(\s+\1)+\b\<close>\<close>
  "duplicate_words =
     Seq WordB
       (Seq (Group 1 (Plus (Cls is_word)))
         (Seq (Plus (Group 2 (Seq (Plus (Cls is_space)) (Backref 1))))
           WordB))"

definition get_or_empty :: "exif \<Rightarrow> string \<Rightarrow> string" where
  \<comment> \<open>what an f-string inserts for \<^verbatim>\<open>{exif_data.get(key, '')}\<close>\<close>
  "get_or_empty exif_data key = (case map_of exif_data key of None \<Rightarrow> [] | Some v \<Rightarrow> py_format v)"

definition format_camera_settings :: "xmp \<Rightarrow> exif \<Rightarrow> pyexc + string" where
  "format_camera_settings xmp_data exif_data =
     (let camera = get_or_empty exif_data ''Make'' @ '' '' @ get_or_empty exif_data ''Model'';
          camera = re_sub duplicate_words [Ref 1] camera;
          lens = get_or_empty exif_data ''LensModel''
      in Inr (py_strip (''Camera: '' @ py_strip camera @ [NL] @ ''Lens: '' @ lens)))"

section \<open>The constants module\<close>

text \<open>
  The module \<^verbatim>\<open>image_metadata_extractor.constants\<close> is not among the sources. The two
  tables that the formatter reads from it are a parameter of the functions that use them.
\<close>

record constants =
  EXPOSURE_PROGRAMS :: "int \<rightharpoonup> string"
  POST_PROCESSING_KEYS :: "string list"

section \<open>Floats\<close>

text \<open>
  The values of an XMP record are strings, and the source turns them into floats. A float
  is the rational it stands for, or an infinity, or not-a-number; the sign of a zero is
  not kept, and nothing below depends on it. Every result of an operation is rounded
  to the nearest binary64 number: 53 binary digits, a tie to the even one, subnormal
  numbers below the exponent -1022, and infinity from the exponent 1024 on.
\<close>

datatype pyfloat = FNum rat | FInf | FNegInf | FNaN

function bit_count :: "int \<Rightarrow> int" where
  \<comment> \<open>the number of binary digits of a positive integer\<close>
  "bit_count n = (if n \<le> 0 then 0 else 1 + bit_count (n div 2))"
  by pat_completeness auto
termination
  by (relation "measure nat") auto

declare bit_count.simps [simp del]

definition pow2 :: "int \<Rightarrow> rat" where
  "pow2 k = (if 0 \<le> k then 2 ^ nat k else 1 / 2 ^ nat (- k))"

definition pow10 :: "int \<Rightarrow> rat" where
  "pow10 k = (if 0 \<le> k then 10 ^ nat k else 1 / 10 ^ nat (- k))"

definition ilog2 :: "rat \<Rightarrow> int" where
  \<comment> \<open>for \<open>a > 0\<close>, the exponent \<open>e\<close> with \<open>pow2 e \<le> a < pow2 (e + 1)\<close>\<close>
  "ilog2 a =
     (let (n, d) = quotient_of a;
          e = bit_count n - bit_count d
      in if pow2 e \<le> a then e else e - 1)"

definition to_double :: "rat \<Rightarrow> pyfloat" where
  "to_double q =
     (if q = 0 then FNum 0
      else
        (let a = \<bar>q\<bar>;
             e = max (ilog2 a) (- 1022);
             ulp = pow2 (e - 52);
             r = of_int (round_half_even (a / ulp)) * ulp
         in if 1024 \<le> ilog2 r then (if 0 < q then FInf else FNegInf)
            else FNum (if 0 < q then r else - r)))"

definition times_hundred :: "pyfloat \<Rightarrow> pyfloat" where
  \<comment> \<open>\<^verbatim>\<open>x * 100\<close>\<close>
  "times_hundred x = (case x of FNum q \<Rightarrow> to_double (q * 100) | _ \<Rightarrow> x)"

definition one_minus :: "pyfloat \<Rightarrow> pyfloat" where
  \<comment> \<open>\<^verbatim>\<open>1 - x\<close>\<close>
  "one_minus x =
     (case x of FNum q \<Rightarrow> to_double (1 - q) | FInf \<Rightarrow> FNegInf | FNegInf \<Rightarrow> FInf | FNaN \<Rightarrow> FNaN)"

definition float_abs :: "pyfloat \<Rightarrow> pyfloat" where
  \<comment> \<open>\<^verbatim>\<open>abs(x)\<close>\<close>
  "float_abs x = (case x of FNum q \<Rightarrow> FNum \<bar>q\<bar> | FInf \<Rightarrow> FInf | FNegInf \<Rightarrow> FInf | FNaN \<Rightarrow> FNaN)"

fun float_gt :: "pyfloat \<Rightarrow> pyfloat \<Rightarrow> bool" where
  \<comment> \<open>\<^verbatim>\<open>x > y\<close>; not-a-number compares false\<close>
  "float_gt FNaN y = False"
| "float_gt x FNaN = False"
| "float_gt (FNum a) (FNum b) = (b < a)"
| "float_gt FInf y = (y \<noteq> FInf)"
| "float_gt FNegInf y = False"
| "float_gt (FNum a) FInf = False"
| "float_gt (FNum a) FNegInf = True"

definition float_nonzero :: "pyfloat \<Rightarrow> bool" where
  \<comment> \<open>\<^verbatim>\<open>x != 0\<close>\<close>
  "float_nonzero x = (case x of FNum q \<Rightarrow> q \<noteq> 0 | _ \<Rightarrow> True)"

definition float_int :: "pyfloat \<Rightarrow> pyexc + int" where
  \<comment> \<open>\<^verbatim>\<open>int(x)\<close>: truncation; an infinity overflows and not-a-number is a ValueError\<close>
  "float_int x =
     (case x of FNum q \<Rightarrow> Inr (py_int q) | FNaN \<Rightarrow> Inl ValueError | _ \<Rightarrow> Inl OverflowError)"

definition fmt_2f :: "pyfloat \<Rightarrow> string" where
  \<comment> \<open>\<^verbatim>\<open>f"{x:.2f}"\<close>: the exact value rounded to two decimals, a tie to the even digit\<close>
  "fmt_2f x =
     (case x of
        FNum q \<Rightarrow>
          (let n = round_half_even (\<bar>q\<bar> * 100)
           in (if q < 0 then ''-'' else []) @ decimal (n div 100) @ ''.'' @
              [digit_char (nat (n mod 100 div 10)), digit_char (nat (n mod 10))])
      | FInf \<Rightarrow> ''inf''
      | FNegInf \<Rightarrow> ''-inf''
      | FNaN \<Rightarrow> ''nan'')"

subsection \<open>Reading a float from text\<close>

definition is_c_space :: "char \<Rightarrow> bool" where
  \<comment> \<open>the whitespace that \<^verbatim>\<open>float()\<close> skips around an ASCII text\<close>
  "is_c_space c = ((9 \<le> py_ord c \<and> py_ord c \<le> 13) \<or> py_ord c = 32)"

fun drop_underscores :: "char \<Rightarrow> string \<Rightarrow> string option" where
  \<comment> \<open>an underscore stands only between two digits; the first argument is the previous
      character\<close>
  "drop_underscores prev [] = (if prev = CHR ''_'' then None else Some [])"
| "drop_underscores prev (c # cs) =
     (if c = CHR ''_'' then (if is_digit prev then drop_underscores c cs else None)
      else if prev = CHR ''_'' \<and> \<not> is_digit c then None
      else map_option ((#) c) (drop_underscores c cs))"

definition digits_value :: "string \<Rightarrow> int" where
  "digits_value ds = foldl (\<lambda>n c. 10 * n + (int (py_ord c) - 48)) 0 ds"

definition split_sign :: "string \<Rightarrow> bool \<times> string" where
  \<comment> \<open>an optional sign; the flag says that it is a minus\<close>
  "split_sign t =
     (case t of
        c # cs \<Rightarrow> (if c = CHR ''-'' then (True, cs) else if c = CHR ''+'' then (False, cs)
                  else (False, t))
      | [] \<Rightarrow> (False, t))"

definition parse_exponent :: "string \<Rightarrow> int option" where
  \<comment> \<open>nothing, or \<^verbatim>\<open>e\<close> or \<^verbatim>\<open>E\<close>, an optional sign and at least one digit\<close>
  "parse_exponent t =
     (case t of
        [] \<Rightarrow> Some 0
      | c # cs \<Rightarrow>
          (if c = CHR ''e'' \<or> c = CHR ''E''
           then (let (neg, ds) = split_sign cs
                 in if ds \<noteq> [] \<and> list_all is_digit ds
                    then Some (if neg then - digits_value ds else digits_value ds)
                    else None)
           else None))"

definition parse_decimal :: "string \<Rightarrow> rat option" where
  \<comment> \<open>digits, an optional point and digits, at least one digit in all, then the exponent\<close>
  "parse_decimal t =
     (let ip = takeWhile is_digit t;
          t1 = dropWhile is_digit t;
          (fp, t2) = (case t1 of
                        c # cs \<Rightarrow> (if c = CHR ''.'' then (takeWhile is_digit cs, dropWhile is_digit cs)
                                  else ([], t1))
                      | [] \<Rightarrow> ([], t1))
      in if ip @ fp = [] then None
         else (case parse_exponent t2 of
                 None \<Rightarrow> None
               | Some e \<Rightarrow> Some (of_int (digits_value (ip @ fp)) * pow10 (e - int (length fp)))))"

definition py_float :: "string \<Rightarrow> pyexc + pyfloat" where
  \<comment> \<open>\<^verbatim>\<open>float(s)\<close> of a str\<close>
  "py_float s =
     (case drop_underscores (CHR 0x00) (rev (dropWhile is_c_space (rev (dropWhile is_c_space s)))) of
        None \<Rightarrow> Inl ValueError
      | Some t \<Rightarrow>
          (let (neg, body) = split_sign t
           in if py_lower body = ''inf'' \<or> py_lower body = ''infinity''
              then Inr (if neg then FNegInf else FInf)
              else if py_lower body = ''nan'' then Inr FNaN
              else (case parse_decimal body of
                      None \<Rightarrow> Inl ValueError
                    | Some q \<Rightarrow> Inr (to_double (if neg then - q else q)))))"

section \<open>Crop info\<close>

definition crop_keys :: "string list" where
  "crop_keys = [''CropLeft'', ''CropRight'', ''CropTop'', ''CropBottom'']"

definition crop_percentage :: "string \<Rightarrow> pyfloat \<Rightarrow> pyfloat" where
  "crop_percentage key v =
     (if key \<in> set [''CropLeft'', ''CropTop''] then times_hundred v
      else times_hundred (one_minus v))"

definition crop_line :: "string \<Rightarrow> pyfloat \<Rightarrow> string" where
  \<comment> \<open>\<^verbatim>\<open>f"{key[4:]}: {percentage:.2f}% cropped"\<close>\<close>
  "crop_line key percentage = drop 4 key @ '': '' @ fmt_2f percentage @ ''% cropped''"

fun crop_loop :: "xmp \<Rightarrow> string list \<Rightarrow> string \<Rightarrow> pyexc + string" where
  "crop_loop xmp_data [] output = Inr output"
| "crop_loop xmp_data (key # keys) output =
     (case map_of xmp_data key of
        None \<Rightarrow> crop_loop xmp_data keys output
      | Some text \<Rightarrow>
          (case py_float text of
             Inl e \<Rightarrow> Inl e
           | Inr v \<Rightarrow>
               (let percentage = crop_percentage key v
                in if float_gt (float_abs percentage) (to_double (1 / 10))
                   then crop_loop xmp_data keys (output @ crop_line key percentage @ [NL])
                   else crop_loop xmp_data keys output)))"

definition format_crop_info :: "xmp \<Rightarrow> exif \<Rightarrow> pyexc + string" where
  "format_crop_info xmp_data exif_data =
     (case crop_loop xmp_data crop_keys [] of
        Inl e \<Rightarrow> Inl e
      | Inr output \<Rightarrow> Inr (py_strip output))"

section \<open>Post-processing\<close>

definition display_key :: "string \<Rightarrow> string" where
  \<comment> \<open>\<^verbatim>\<open>camel_to_standard(key.replace("2012", ""))\<close>\<close>
  "display_key key = camel_to_standard (py_replace ''2012'' [] key)"

definition post_line :: "string \<Rightarrow> string \<Rightarrow> string" where
  \<comment> \<open>\<^verbatim>\<open>f"{display_key}: {value}"\<close>\<close>
  "post_line key text = display_key key @ '': '' @ text"

definition post_try :: "string \<Rightarrow> string \<Rightarrow> pyexc + string" where
  \<comment> \<open>the body of the \<^verbatim>\<open>try\<close>: what it appends to the output, or what it raises\<close>
  "post_try key text =
     (case py_float text of
        Inl e \<Rightarrow> Inl e
      | Inr float_value \<Rightarrow>
          (case (if key = ''PerspectiveScale''
                 then (case float_int float_value of Inl e \<Rightarrow> Inl e | Inr i \<Rightarrow> Inr (i = 100))
                 else Inr False) of
             Inl e \<Rightarrow> Inl e
           | Inr True \<Rightarrow> Inr []
           | Inr False \<Rightarrow>
               (if float_nonzero float_value then Inr (post_line key text @ [NL]) else Inr [])))"

definition post_entry :: "string \<Rightarrow> string \<Rightarrow> pyexc + string" where
  \<comment> \<open>the \<^verbatim>\<open>try\<close> with its handler, which takes a ValueError and nothing else\<close>
  "post_entry key text =
     (case post_try key text of
        Inl ValueError \<Rightarrow>
          (if py_lower text \<notin> set [''0'', ''false'', ''none'', []]
           then Inr (post_line key text @ [NL]) else Inr [])
      | Inl e \<Rightarrow> Inl e
      | Inr t \<Rightarrow> Inr t)"

fun post_loop :: "xmp \<Rightarrow> string list \<Rightarrow> string \<Rightarrow> pyexc + string" where
  "post_loop xmp_data [] output = Inr output"
| "post_loop xmp_data (key # keys) output =
     (case map_of xmp_data key of
        None \<Rightarrow> post_loop xmp_data keys output
      | Some text \<Rightarrow>
          (case post_entry key text of
             Inl e \<Rightarrow> Inl e
           | Inr t \<Rightarrow> post_loop xmp_data keys (output @ t)))"

definition format_post_processing :: "constants \<Rightarrow> xmp \<Rightarrow> exif \<Rightarrow> pyexc + string" where
  "format_post_processing cs xmp_data exif_data =
     (let output = [];
          output = (case map_of xmp_data ''CreatorTool'' of
                      None \<Rightarrow> output
                    | Some tool \<Rightarrow> output @ ''Edited in '' @ tool @ [NL])
      in case post_loop xmp_data (POST_PROCESSING_KEYS cs) output of
           Inl e \<Rightarrow> Inl e
         | Inr output \<Rightarrow> Inr (py_strip output))"

section \<open>Tech details and capture date\<close>

definition is_zero :: "pyval \<Rightarrow> bool" where
  \<comment> \<open>\<^verbatim>\<open>v == 0\<close>\<close>
  "is_zero v = (case v of PStr s \<Rightarrow> False | PInt i \<Rightarrow> i = 0 | PNum q txt \<Rightarrow> q = 0)"

definition program_name :: "(int \<rightharpoonup> string) \<Rightarrow> pyval \<Rightarrow> string" where
  \<comment> \<open>\<^verbatim>\<open>EXPOSURE_PROGRAMS.get(v, 'Unknown')\<close>; a number equal to an integer key finds it\<close>
  "program_name tbl v =
     (case (case v of
              PStr s \<Rightarrow> None
            | PInt i \<Rightarrow> tbl i
            | PNum q txt \<Rightarrow> (if of_int \<lfloor>q\<rfloor> = q then tbl \<lfloor>q\<rfloor> else None)) of
        None \<Rightarrow> ''Unknown''
      | Some name \<Rightarrow> name)"

definition format_tech_details :: "constants \<Rightarrow> xmp \<Rightarrow> exif \<Rightarrow> pyexc + string" where
  "format_tech_details cs xmp_data exif_data =
     (let output = [];
          output = (case map_of exif_data ''ExposureProgram'' of
                      None \<Rightarrow> output
                    | Some v \<Rightarrow>
                        output @ ''Shot in '' @ program_name (EXPOSURE_PROGRAMS cs) v @ '' mode'' @ [NL]);
          output = (case map_of exif_data ''WhiteBalance'' of
                      None \<Rightarrow> output
                    | Some v \<Rightarrow>
                        (let white_balance = (if is_zero v then ''Auto'' else ''Manual'')
                         in output @ ''White Balance: '' @ white_balance @ [NL]))
      in Inr (py_strip output))"

definition format_capture_date :: "xmp \<Rightarrow> exif \<Rightarrow> pyexc + string" where
  "format_capture_date xmp_data exif_data =
     (case map_of exif_data ''DateTimeOriginal'' of
        None \<Rightarrow> Inr []
      | Some (PStr s) \<Rightarrow>
          (case py_split s of
             [date, time] \<Rightarrow>
               (let date = py_replace '':'' ''-'' date
                in Inr (''Captured on '' @ date @ '' at '' @ time))
           | _ \<Rightarrow> Inl ValueError)
      | Some _ \<Rightarrow> Inl AttributeError)"

section \<open>Extraction\<close>

text \<open>
  The image library and the XML parser are collaborators, not part of the sources. What
  they answer is a parameter: \<open>Image_open\<close> gives the image at a path or raises, an
  image holds its list of auxiliary segments and what \<^verbatim>\<open>_getexif()\<close> answers (it may
  raise, or return None, or the table of tags), \<open>TAGS\<close> is the library's table of tag
  names, and \<open>fromstring\<close> parses XML or raises. Bytes are a \<^typ>\<open>string\<close> too.
\<close>

datatype element =
  Element (tag: string) (etext: "string option") (attrib: "(string \<times> string) list")
    (children: "element list")

record image =
  applist :: "(string \<times> string) list"
  getexif :: "pyexc + (nat \<times> pyval) list option"

record externals =
  Image_open :: "string \<Rightarrow> pyexc + image"
  TAGS :: "nat \<rightharpoonup> string"
  fromstring :: "string \<Rightarrow> pyexc + element"

datatype printed = ErrorReadingExif string pyexc
  \<comment> \<open>the line \<^verbatim>\<open>Error reading EXIF data from {image_path}: {e}\<close> on standard output\<close>

definition dict_set :: "('k \<times> 'v) list \<Rightarrow> 'k \<Rightarrow> 'v \<Rightarrow> ('k \<times> 'v) list" where
  \<comment> \<open>\<^verbatim>\<open>d[k] = v\<close>: a key that is present keeps its place and takes the new value\<close>
  "dict_set d k v =
     (if k \<in> fst ` set d then map (\<lambda>(k', v'). if k' = k then (k', v) else (k', v')) d
      else d @ [(k, v)])"

definition named_tags :: "(nat \<rightharpoonup> string) \<Rightarrow> (nat \<times> pyval) list \<Rightarrow> exif" where
  \<comment> \<open>\<^verbatim>\<open>{TAGS[k]: v for k, v in exif.items() if k in TAGS}\<close>\<close>
  "named_tags tags items =
     foldl (\<lambda>d (k, v). case tags k of None \<Rightarrow> d | Some name \<Rightarrow> dict_set d name v) [] items"

definition get_exif_try :: "externals \<Rightarrow> string \<Rightarrow> pyexc + exif option" where
  \<comment> \<open>the body of the \<^verbatim>\<open>try\<close>; the answer None stands for leaving it without a return\<close>
  "get_exif_try ext image_path =
     (case Image_open ext image_path of
        Inl e \<Rightarrow> Inl e
      | Inr img \<Rightarrow>
          (case getexif img of
             Inl e \<Rightarrow> Inl e
           | Inr None \<Rightarrow> Inr None
           | Inr (Some items) \<Rightarrow>
               (if items \<noteq> [] then Inr (Some (named_tags (TAGS ext) items)) else Inr None)))"

definition get_exif :: "externals \<Rightarrow> string \<Rightarrow> printed list \<times> (pyexc + exif option)" where
  \<comment> \<open>what is printed, and what is returned or raised; \<^verbatim>\<open>except Exception\<close> takes every
      exception of the model\<close>
  "get_exif ext image_path =
     (case get_exif_try ext image_path of
        Inl e \<Rightarrow> ([ErrorReadingExif image_path e], Inr None)
      | Inr r \<Rightarrow> ([], Inr r))"

fun find_from :: "string \<Rightarrow> string \<Rightarrow> int \<Rightarrow> int" where
  "find_from sub [] i = (if sub = [] then i else - 1)"
| "find_from sub (c # cs) i = (if starts_with (c # cs) sub then i else find_from sub cs (i + 1))"

definition py_find :: "string \<Rightarrow> string \<Rightarrow> int" where
  \<comment> \<open>\<^verbatim>\<open>s.find(sub)\<close>: the first index, or -1\<close>
  "py_find s sub = find_from sub s 0"

definition slice_index :: "int \<Rightarrow> nat \<Rightarrow> nat" where
  \<comment> \<open>a bound of a slice: counted from the end when negative, then clamped\<close>
  "slice_index i n = (if i < 0 then nat (max 0 (i + int n)) else min (nat i) n)"

definition py_slice :: "string \<Rightarrow> int \<Rightarrow> int \<Rightarrow> string" where
  \<comment> \<open>\<^verbatim>\<open>s[a:b]\<close>\<close>
  "py_slice s a b = drop (slice_index a (length s)) (take (slice_index b (length s)) s)"

fun utf8_valid :: "nat list \<Rightarrow> bool" where
  "utf8_valid [] = True"
| "utf8_valid (a # bs) =
     (if a < 0x80 then utf8_valid bs
      else if 0xC2 \<le> a \<and> a \<le> 0xDF then
        (case bs of b # r \<Rightarrow> 0x80 \<le> b \<and> b \<le> 0xBF \<and> utf8_valid r | _ \<Rightarrow> False)
      else if 0xE0 \<le> a \<and> a \<le> 0xEF then
        (case bs of
           b # c # r \<Rightarrow>
             (if a = 0xE0 then 0xA0 else 0x80) \<le> b \<and> b \<le> (if a = 0xED then 0x9F else 0xBF) \<and>
             0x80 \<le> c \<and> c \<le> 0xBF \<and> utf8_valid r
         | _ \<Rightarrow> False)
      else if 0xF0 \<le> a \<and> a \<le> 0xF4 then
        (case bs of
           b # c # d # r \<Rightarrow>
             (if a = 0xF0 then 0x90 else 0x80) \<le> b \<and> b \<le> (if a = 0xF4 then 0x8F else 0xBF) \<and>
             0x80 \<le> c \<and> c \<le> 0xBF \<and> 0x80 \<le> d \<and> d \<le> 0xBF \<and> utf8_valid r
         | _ \<Rightarrow> False)
      else False)"

definition py_decode :: "string \<Rightarrow> pyexc + string" where
  \<comment> \<open>\<^verbatim>\<open>b.decode("utf-8")\<close>: the text, which the model carries as the same bytes\<close>
  "py_decode b = (if utf8_valid (map py_ord b) then Inr b else Inl UnicodeDecodeError)"

fun iter :: "element \<Rightarrow> element list" where
  \<comment> \<open>\<^verbatim>\<open>root.iter()\<close>: the element, then its children's elements, in document order\<close>
  "iter (Element t x a cs) = Element t x a cs # concat (map iter cs)"

definition local_name :: "string \<Rightarrow> string" where
  \<comment> \<open>\<^verbatim>\<open>name.split("}")[1]\<close> for a name that holds a closing brace\<close>
  "local_name name = (case py_split_on (CHR 0x7D) name of _ # x # _ \<Rightarrow> x | _ \<Rightarrow> [])"

definition has_brace :: "string \<Rightarrow> bool" where
  \<comment> \<open>\<^verbatim>\<open>"}" in name\<close>\<close>
  "has_brace name = (CHR 0x7D \<in> set name)"

definition add_element :: "xmp \<Rightarrow> element \<Rightarrow> xmp" where
  \<comment> \<open>the body of the loop over the elements\<close>
  "add_element metadata elem =
     (let metadata =
            (if has_brace (tag elem)
             then (case etext elem of
                     None \<Rightarrow> metadata
                   | Some t \<Rightarrow>
                       (if t \<noteq> [] \<and> py_strip t \<noteq> []
                        then dict_set metadata (local_name (tag elem)) (py_strip t)
                        else metadata))
             else metadata)
      in foldl (\<lambda>m (name, v). dict_set m (if has_brace name then local_name name else name) v)
               metadata (attrib elem))"

definition xmp_marker :: string where
  "xmp_marker = ''http://ns.adobe.com/xap/1.0/''"

definition is_xmp_segment :: "string \<times> string \<Rightarrow> bool" where
  \<comment> \<open>the test of the loop: an \<^verbatim>\<open>APP1\<close> segment that begins with the XMP namespace marker\<close>
  "is_xmp_segment seg =
     (case seg of (segment, content) \<Rightarrow> segment = ''APP1'' \<and> starts_with content xmp_marker)"

definition find_xmp_segment :: "(string \<times> string) list \<Rightarrow> string option" where
  \<comment> \<open>the loop over \<^verbatim>\<open>img.applist\<close> up to its \<^verbatim>\<open>break\<close>\<close>
  "find_xmp_segment segs = map_option snd (find is_xmp_segment segs)"

definition xmpmeta_slice :: "string \<Rightarrow> string" where
  \<comment> \<open>\<^verbatim>\<open>xmp_data[xmp_start : xmp_end + 12]\<close>\<close>
  "xmpmeta_slice xmp_data =
     (let xmp_start = py_find xmp_data ''<x:xmpmeta'';
          xmp_end = py_find xmp_data ''</x:xmpmeta''
      in py_slice xmp_data xmp_start (xmp_end + 12))"

definition get_xmp_metadata :: "externals \<Rightarrow> string \<Rightarrow> pyexc + xmp option" where
  "get_xmp_metadata ext image_path =
     (case Image_open ext image_path of
        Inl e \<Rightarrow> Inl e
      | Inr img \<Rightarrow>
          (case find_xmp_segment (applist img) of
             None \<Rightarrow> Inr None
           | Some xmp_data \<Rightarrow>
               (if xmp_data = [] then Inr None
                else
                  (case py_decode (xmpmeta_slice xmp_data) of
                     Inl e \<Rightarrow> Inl e
                   | Inr xmp_str \<Rightarrow>
                       (case fromstring ext xmp_str of
                          Inl e \<Rightarrow> Inl e
                        | Inr tree \<Rightarrow> Inr (Some (foldl add_element [] (iter tree))))))))"

section \<open>The report\<close>

text \<open>
  The section titles begin with pictographs, written here as the bytes of their UTF-8
  encoding.
\<close>

definition title_camera :: string where
  "title_camera = [CHR 0xF0, CHR 0x9F, CHR 0x93, CHR 0xB8] @ '' Camera Settings Breakdown '' @
                  [CHR 0xF0, CHR 0x9F, CHR 0x93, CHR 0xB8]"

definition title_settings :: string where
  "title_settings = [CHR 0xF0, CHR 0x9F, CHR 0x93, CHR 0x8A] @ '' Settings''"

definition title_tech :: string where
  "title_tech = [CHR 0xF0, CHR 0x9F, CHR 0x94, CHR 0x8D] @ '' Tech Details''"

definition title_crop :: string where
  "title_crop = [CHR 0xE2, CHR 0x9C, CHR 0x82, CHR 0xEF, CHR 0xB8, CHR 0x8F] @ '' Crop Info''"

definition title_post :: string where
  "title_post = [CHR 0xE2, CHR 0x9C, CHR 0xA8] @ '' Post-Processing''"

definition title_date :: string where
  "title_date = [CHR 0xF0, CHR 0x9F, CHR 0x93, CHR 0x85] @ '' Capture Date''"

type_synonym section_rule = "xmp \<Rightarrow> exif \<Rightarrow> pyexc + string"

definition sections :: "constants \<Rightarrow> (string \<times> section_rule) list" where
  \<comment> \<open>the dict \<^verbatim>\<open>sections\<close>, in the order of its literal\<close>
  "sections cs =
     [(title_camera, format_camera_settings),
      (title_settings, format_settings),
      (title_tech, format_tech_details cs),
      (title_crop, format_crop_info),
      (title_post, format_post_processing cs),
      (title_date, format_capture_date)]"

fun run_sections :: "(string \<times> section_rule) list \<Rightarrow> xmp \<Rightarrow> exif \<Rightarrow> string \<Rightarrow> pyexc + string" where
  \<comment> \<open>the loop over \<^verbatim>\<open>sections.items()\<close>, the output so far as last argument\<close>
  "run_sections [] xmp_data exif_data output = Inr output"
| "run_sections ((section_title, format_function) # others) xmp_data exif_data output =
     (case format_function xmp_data exif_data of
        Inl e \<Rightarrow> Inl e
      | Inr section_content \<Rightarrow>
          run_sections others xmp_data exif_data
            (if section_content \<noteq> []
             then output @ section_title @ [NL] @ section_content @ [NL]
             else output))"

definition falsy :: "('k \<times> 'v) list option \<Rightarrow> bool" where
  \<comment> \<open>\<^verbatim>\<open>not d\<close> for an optional dict: None or empty\<close>
  "falsy d = (case d of None \<Rightarrow> True | Some m \<Rightarrow> m = [])"

definition or_empty :: "('k \<times> 'v) list option \<Rightarrow> ('k \<times> 'v) list" where
  \<comment> \<open>\<^verbatim>\<open>d or {}\<close>\<close>
  "or_empty d = (case d of None \<Rightarrow> [] | Some m \<Rightarrow> m)"

definition format_image_metadata :: "constants \<Rightarrow> xmp option \<Rightarrow> exif option \<Rightarrow> pyexc + string" where
  "format_image_metadata cs xmp_data exif_data =
     (if falsy xmp_data \<and> falsy exif_data then Inr ''No metadata present''
      else
        (let xmp_data = or_empty xmp_data;
             exif_data = or_empty exif_data
         in case run_sections (sections cs) xmp_data exif_data [] of
              Inl e \<Rightarrow> Inl e
            | Inr output \<Rightarrow> Inr (py_strip output)))"

text \<open>
  Modelled from the spec: the module \<^verbatim>\<open>constants.py\<close> with \<^verbatim>\<open>EXPOSURE_PROGRAMS\<close> and
  \<^verbatim>\<open>POST_PROCESSING_KEYS\<close> is missing. The concrete tables below serve the examples:
  program 1 is the Manual mode that the specification's scenario prints, and the keys
  are those that the specification and the fixtures of the tests name.
\<close>

definition sample_constants :: constants where
  "sample_constants =
     \<lparr>EXPOSURE_PROGRAMS = [1 \<mapsto> ''Manual''],
      POST_PROCESSING_KEYS =
        [''Contrast'', ''Highlights'', ''Shadows'', ''Whites'', ''Blacks'', ''Texture'',
         ''Clarity2012'', ''Vibrance'', ''Saturation'', ''Sharpness'', ''PerspectiveScale'',
         ''ToneCurveName2012'']\<rparr>"

definition section_block :: "string \<Rightarrow> string \<Rightarrow> string" where
  \<comment> \<open>what a section adds to the report: nothing when its content is empty\<close>
  "section_block title content = (if content = [] then [] else title @ [NL] @ content @ [NL])"

definition sample_exif :: exif where
  \<comment> \<open>the EXIF record of the specification's scenario\<close>
  "sample_exif =
     [(''Make'', PStr ''Canon''), (''Model'', PStr ''EOS 200D''),
      (''LensModel'', PStr ''EF85mm f/1.8 USM''), (''FNumber'', PNum (14 / 5) ''2.8''),
      (''ExposureTime'', PNum (1 / 30) ''0.03333333333333333''),
      (''ISOSpeedRatings'', PInt 400), (''FocalLength'', PNum 85 ''85.0''),
      (''ExposureProgram'', PInt 1), (''WhiteBalance'', PInt 0),
      (''DateTimeOriginal'', PStr ''2024:07:30 22:12:59'')]"

definition sample_xmp :: xmp where
  "sample_xmp =
     [(''CreatorTool'', ''Adobe Lightroom 7.4.1 (Windows)''), (''CropLeft'', ''0.3333''),
      (''Contrast'', ''+5''), (''Saturation'', ''0''), (''PerspectiveScale'', ''100''),
      (''ToneCurveName2012'', ''Linear'')]"

definition is_datetime_form :: "string \<Rightarrow> bool" where
  \<comment> \<open>the form \<^verbatim>\<open>YYYY:MM:DD HH:MM:SS\<close>\<close>
  "is_datetime_form s =
     (length s = 19 \<and>
      (\<forall>i \<in> {0, 1, 2, 3, 5, 6, 8, 9, 11, 12, 14, 15, 17, 18}. is_digit (s ! i)) \<and>
      (\<forall>i \<in> {4, 7, 13, 16}. s ! i = CHR '':'') \<and>
      s ! 10 = CHR '' '')"

fun text_lines :: "string \<Rightarrow> string list" where
  "text_lines [] = [[]]"
| "text_lines (c # cs) =
     (if c = NL then [] # text_lines cs
      else (case text_lines cs of l # ls \<Rightarrow> (c # l) # ls | [] \<Rightarrow> [[c]]))"

definition join_lines :: "string list \<Rightarrow> string" where
  "join_lines ls = concat (map (\<lambda>l. l @ [NL]) ls)"




definition post_text :: "string \<Rightarrow> string \<Rightarrow> string" where
  \<comment> \<open>what a present key adds to the output, in the words of the specification but with
      the integer part of the perspective scale compared with 100\<close>
  "post_text key raw =
     (case py_float raw of
        Inr (FNum q) \<Rightarrow>
          (if q \<noteq> 0 \<and> \<not> (key = ''PerspectiveScale'' \<and> py_int q = 100)
           then post_line key raw @ [NL] else [])
      | Inr _ \<Rightarrow> post_line key raw @ [NL]
      | Inl _ \<Rightarrow>
          (if py_lower raw \<in> {''0'', ''false'', ''none'', []} then []
           else post_line key raw @ [NL]))"


definition perspective_overflow :: "string \<Rightarrow> string \<Rightarrow> bool" where
  \<comment> \<open>the perspective scale with an infinite value: \<^verbatim>\<open>int()\<close> raises OverflowError, which
      the handler does not take\<close>
  "perspective_overflow key raw =
     (key = ''PerspectiveScale'' \<and> (py_float raw = Inr FInf \<or> py_float raw = Inr FNegInf))"

definition tag_items :: "(nat \<rightharpoonup> string) \<Rightarrow> (nat \<times> pyval) list \<Rightarrow> (string \<times> pyval) list" where
  \<comment> \<open>the items whose numeric tag is in the table, each under the name of its tag\<close>
  "tag_items tags items =
     concat (map (\<lambda>(k, v). case tags k of None \<Rightarrow> [] | Some name \<Rightarrow> [(name, v)]) items)"

definition sample_tags :: "nat \<rightharpoonup> string" where
  "sample_tags = [271 \<mapsto> ''Make'', 272 \<mapsto> ''Model'']"

definition sample_xml :: string where
  \<comment> \<open>the XML of the repository's test of the XMP reader\<close>
  \<open>sample_xml =
     ''<x:xmpmeta xmlns:x="http://ns.adobe.com/xap/1.0/" '' @
     ''xmlns:rdf="http://www.w3.org/1999/02/22-rdf-syntax-ns#">'' @
     ''<rdf:RDF>'' @
     ''<rdf:Description rdf:about="" '' @
     ''xmlns:xmp="http://ns.adobe.com/xap/1.0/" '' @
     ''xmp:CreatorTool="Adobe Lightroom"/>'' @
     ''</rdf:RDF>'' @
     ''</x:xmpmeta>''\<close>

definition sample_tree :: element where
  \<comment> \<open>the tree that the parser answers for it\<close>
  "sample_tree =
     Element ''{http://ns.adobe.com/xap/1.0/}xmpmeta'' None []
       [Element ''{http://www.w3.org/1999/02/22-rdf-syntax-ns#}RDF'' None []
          [Element ''{http://www.w3.org/1999/02/22-rdf-syntax-ns#}Description'' None
             [(''{http://www.w3.org/1999/02/22-rdf-syntax-ns#}about'', []),
              (''{http://ns.adobe.com/xap/1.0/}CreatorTool'', ''Adobe Lightroom'')] []]]"

definition broken_xml :: string where
  \<comment> \<open>an \<^verbatim>\<open>xmpmeta\<close> element whose child is never closed\<close>
  "broken_xml = ''<x:xmpmeta><rdf:RDF></x:xmpmeta>''"

definition sample_externals :: "image \<Rightarrow> externals" where
  \<comment> \<open>collaborators for the examples: one file that opens, a parser that knows one text\<close>
  "sample_externals img =
     \<lparr>Image_open = (\<lambda>p. if p = ''test.jpg'' then Inr img
                         else Inl (Other ''cannot identify image file'')),
      TAGS = sample_tags,
      fromstring = (\<lambda>t. if t = sample_xml then Inr sample_tree else Inl (Other ''ParseError''))\<rparr>"

section \<open>Repeated words\<close>

text \<open>
  The specification describes the camera line in words: immediately adjacent duplicate
  words are collapsed to one occurrence. \<open>collapse_words\<close> is that description, written
  without the pattern of the source, to be compared with it: the text is cut into words,
  gaps of whitespace and single other characters, and a word that follows the same word
  across one gap goes together with the gap.
\<close>

datatype token = Word string | Gap string | Sym char

function tokens :: "string \<Rightarrow> token list" where
  \<comment> \<open>the text cut into words (maximal runs of word characters), gaps (maximal runs of
      whitespace) and single other characters\<close>
  "tokens [] = []"
| "tokens (c # cs) =
     (if is_word c then Word (takeWhile is_word (c # cs)) # tokens (dropWhile is_word (c # cs))
      else if is_space c then Gap (takeWhile is_space (c # cs)) # tokens (dropWhile is_space (c # cs))
      else Sym c # tokens cs)"
  by pat_completeness auto
termination
  by (relation "measure length") (auto simp: length_dropWhile_le less_Suc_eq_le)




text \<open>
  Notions for following the pattern \<open>duplicate_words\<close> through the matcher: a state moved
  on by some characters, one repetition \<^verbatim>\<open>\s+\1\<close> of a word, and the remainders after
  one, two and more repetitions.
\<close>

definition adv :: "mstate \<Rightarrow> nat \<Rightarrow> mstate" where
  \<comment> \<open>the state after \<open>j\<close> more characters\<close>
  "adv s j = s\<lparr>seen := seen s @ take j (rest s), rest := drop j (rest s)\<rparr>"








section \<open>Facts about stripping and lines\<close>


lemma dropWhile_keep:
  "l \<noteq> [] \<Longrightarrow> \<not> P (hd l) \<Longrightarrow> dropWhile P (a @ l @ b) = dropWhile P a @ l @ b"
  by (induction a) (auto simp: neq_Nil_conv)


lemma py_lstrip_append:
  "l \<noteq> [] \<Longrightarrow> \<not> is_space (hd l) \<Longrightarrow> py_lstrip (a @ l @ b) = py_lstrip a @ l @ b"
  unfolding py_lstrip_def by (rule dropWhile_keep)

lemma py_rstrip_append:
  assumes "l \<noteq> []" "\<not> is_space (last l)"
  shows "py_rstrip (a @ l @ b) = a @ l @ py_rstrip b"
proof -
  have "dropWhile is_space (rev b @ rev l @ rev a) = dropWhile is_space (rev b) @ rev l @ rev a"
    using assms by (intro dropWhile_keep) (simp_all add: hd_rev)
  thus ?thesis by (simp add: py_rstrip_def)
qed

lemma py_strip_append:
  assumes "l \<noteq> []" "\<not> is_space (hd l)" "\<not> is_space (last l)"
  shows "py_strip (a @ l @ b) = py_lstrip a @ l @ py_rstrip b"
  using assms by (simp add: py_strip_def py_lstrip_append py_rstrip_append)





section \<open>The settings section: shutter speed\<close>








text \<open>The two values that the specification names, and one below 1 that is not a unit fraction.\<close>

lemma shutter_line_thirtieth:
  "shutter_line (PNum (1 / 30) ''0.03333333333333333'') = ''Shutter Speed: 1/30 sec''"
  by code_simp

lemma shutter_line_two: "shutter_line (PInt 2) = ''Shutter Speed: 2 sec''"
  by code_simp

lemma format_settings_thirtieth:
  "format_settings [] [(''ExposureTime'', PNum (1 / 30) ''0.03333333333333333'')]
     = Inr ''Shutter Speed: 1/30 sec''"
  by code_simp

lemma format_settings_two:
  "format_settings [] [(''ExposureTime'', PInt 2)] = Inr ''Shutter Speed: 2 sec''"
  by code_simp




section \<open>The capture date\<close>

lemma split_acc_word:
  "\<forall>c \<in> set w. \<not> is_space c \<Longrightarrow> split_acc cur (w @ r) = split_acc (cur @ w) r"
  by (induction w arbitrary: cur) simp_all

lemma py_split_two:
  assumes "d \<noteq> []" "t \<noteq> []" "\<forall>c \<in> set d. \<not> is_space c" "\<forall>c \<in> set t. \<not> is_space c"
  shows "py_split (d @ CHR '' '' # t) = [d, t]"
proof -
  have "split_acc [] (d @ CHR '' '' # t) = split_acc d (CHR '' '' # t)"
    using split_acc_word [OF assms(3), of "[]"] by simp
  also have "\<dots> = d # split_acc [] (t @ [])"
    using assms(1) by (simp add: is_space_def)
  also have "split_acc [] (t @ []) = split_acc t []"
    using split_acc_word [OF assms(4), of "[]" "[]"] by simp
  finally show ?thesis using assms(2) by (simp add: py_split_def)
qed

lemma py_replace_char:
  "py_replace [a] [b] s = map (\<lambda>c. if c = a then b else c) s"
  by (induction s) (simp_all add: starts_with_def)

lemma digit_not_space: "is_digit c \<Longrightarrow> \<not> is_space c"
  by (simp add: is_digit_def is_space_def py_ord_def)

lemma datetime_form_parts:
  assumes "is_datetime_form s"
  shows "s = take 10 s @ CHR '' '' # drop 11 s"
    and "\<forall>c \<in> set (take 10 s). \<not> is_space c"
    and "\<forall>c \<in> set (drop 11 s). \<not> is_space c"
    and "take 10 s \<noteq> []" and "drop 11 s \<noteq> []"
proof -
  from assms have len: "length s = 19" by (simp add: is_datetime_form_def)
  then obtain c0 c1 c2 c3 c4 c5 c6 c7 c8 c9 c10 c11 c12 c13 c14 c15 c16 c17 c18
    where s: "s = [c0, c1, c2, c3, c4, c5, c6, c7, c8, c9, c10, c11, c12, c13, c14, c15, c16, c17, c18]"
    by (auto simp: length_Suc_conv eval_nat_numeral)
  from assms show "s = take 10 s @ CHR '' '' # drop 11 s"
    unfolding s by (simp add: is_datetime_form_def)
  have colon: "\<not> is_space CHR '':''" by (simp add: is_space_def)
  from assms show "\<forall>c \<in> set (take 10 s). \<not> is_space c"
    unfolding s by (simp add: is_datetime_form_def digit_not_space colon)
  from assms show "\<forall>c \<in> set (drop 11 s). \<not> is_space c"
    unfolding s by (simp add: is_datetime_form_def digit_not_space colon)
  show "take 10 s \<noteq> []" "drop 11 s \<noteq> []" using len by auto
qed

text \<open>
  C7. For a \<^verbatim>\<open>DateTimeOriginal\<close> of the form \<^verbatim>\<open>YYYY:MM:DD HH:MM:SS\<close>,
  \<^verbatim>\<open>format_capture_date\<close> splits the value on whitespace into the date (the first ten
  characters) and the time (the last eight), rewrites the colons of the date to hyphens
  and returns \<^verbatim>\<open>Captured on {date} at {time}\<close>. Without \<^verbatim>\<open>DateTimeOriginal\<close> it
  returns the empty string.
\<close>

theorem format_capture_date_form:
  "(map_of exif_data ''DateTimeOriginal'' = None \<longrightarrow> format_capture_date xmp_data exif_data = Inr []) \<and>
   (\<forall>s. map_of exif_data ''DateTimeOriginal'' = Some (PStr s) \<and> is_datetime_form s \<longrightarrow>
      py_split s = [take 10 s, drop 11 s] \<and>
      format_capture_date xmp_data exif_data =
        Inr (''Captured on '' @ map (\<lambda>c. if c = CHR '':'' then CHR ''-'' else c) (take 10 s) @
             '' at '' @ drop 11 s))"
proof (intro conjI allI impI)
  assume "map_of exif_data ''DateTimeOriginal'' = None"
  thus "format_capture_date xmp_data exif_data = Inr []"
    by (simp add: format_capture_date_def)
next
  fix s
  assume a: "map_of exif_data ''DateTimeOriginal'' = Some (PStr s) \<and> is_datetime_form s"
  note p = datetime_form_parts [of s]
  have "py_split (take 10 s @ CHR '' '' # drop 11 s) = [take 10 s, drop 11 s]"
    using a p(2-5) by (intro py_split_two) simp_all
  thus sp: "py_split s = [take 10 s, drop 11 s]"
    using a p(1) by simp
  show "format_capture_date xmp_data exif_data =
        Inr (''Captured on '' @ map (\<lambda>c. if c = CHR '':'' then CHR ''-'' else c) (take 10 s) @
             '' at '' @ drop 11 s)"
    using a sp by (simp add: format_capture_date_def py_replace_char)
qed

lemma dt_form: "is_datetime_form ''2024:07:30 22:12:59''"
  by (simp add: is_datetime_form_def is_digit_def py_ord_def)

theorem format_capture_date_form_witness:
  "format_capture_date [] [] = Inr [] \<and>
   format_capture_date [] [(''DateTimeOriginal'', PStr ''2024:07:30 22:12:59'')]
     = Inr ''Captured on 2024-07-30 at 22:12:59''"
proof -
  have a: "map_of ([] :: exif) ''DateTimeOriginal'' = None" by simp
  have b: "map_of [(''DateTimeOriginal'', PStr ''2024:07:30 22:12:59'')] ''DateTimeOriginal''
             = Some (PStr ''2024:07:30 22:12:59'') \<and> is_datetime_form ''2024:07:30 22:12:59''"
    by (simp add: dt_form)
  show ?thesis
    using format_capture_date_form [of "[]" "[]", THEN conjunct1, rule_format, OF a]
      format_capture_date_form [of "[(''DateTimeOriginal'', PStr ''2024:07:30 22:12:59'')]" "[]",
        THEN conjunct2, rule_format, OF b]
    by simp
qed


section \<open>The report: sentinel and sections\<close>

lemma py_strip_Cons: "\<not> is_space c \<Longrightarrow> py_strip (c # s) = c # py_rstrip s"
  using py_strip_append [of "[c]" "[]" s] by (simp add: py_lstrip_def)

lemma format_camera_settings_nonempty:
  "\<exists>c. format_camera_settings x e = Inr (CHR ''C'' # c)"
  by (simp add: format_camera_settings_def Let_def py_strip_Cons is_space_def)

lemma run_sections_prefix:
  "run_sections rs x e acc = Inr out \<Longrightarrow> \<exists>t. out = acc @ t"
proof (induction rs arbitrary: acc)
  case Nil
  then show ?case by simp
next
  case (Cons r rs)
  obtain title f where r: "r = (title, f)" by (cases r)
  from Cons.prems obtain c where c: "f x e = Inr c"
    and run: "run_sections rs x e (if c \<noteq> [] then acc @ title @ [NL] @ c @ [NL] else acc) = Inr out"
    by (auto simp: r split: sum.splits)
  from Cons.IH [OF run] show ?case by (auto split: if_splits)
qed

lemma run_sections_camera_first:
  assumes "run_sections (sections cs) x e [] = Inr out"
  shows "\<exists>t. out = CHR 0xF0 # t"
proof -
  obtain c where c: "format_camera_settings x e = Inr (CHR ''C'' # c)"
    using format_camera_settings_nonempty by blast
  obtain rs where rs: "sections cs = (title_camera, format_camera_settings) # rs"
    by (simp add: sections_def)
  have "run_sections ((title_camera, format_camera_settings) # rs) x e [] =
      run_sections rs x e (title_camera @ [NL] @ (CHR ''C'' # c) @ [NL])"
    by (simp add: c)
  with assms rs have "run_sections rs x e (title_camera @ [NL] @ (CHR ''C'' # c) @ [NL]) = Inr out"
    by simp
  from run_sections_prefix [OF this] show ?thesis
    by (auto simp: title_camera_def)
qed

text \<open>
  C1. When both records are absent or empty, \<^verbatim>\<open>format_image_metadata\<close> returns exactly
  \<^verbatim>\<open>No metadata present\<close>. When at least one record is not empty it does not return that
  sentence: what it returns then begins with the title of the camera section.
\<close>

theorem format_image_metadata_sentinel:
  "(xmp_data \<in> {None, Some []} \<and> exif_data \<in> {None, Some []} \<longrightarrow>
      format_image_metadata cs xmp_data exif_data = Inr ''No metadata present'') \<and>
   (\<not> (xmp_data \<in> {None, Some []} \<and> exif_data \<in> {None, Some []}) \<longrightarrow>
      format_image_metadata cs xmp_data exif_data \<noteq> Inr ''No metadata present'')"
proof (intro conjI impI)
  assume "xmp_data \<in> {None, Some []} \<and> exif_data \<in> {None, Some []}"
  thus "format_image_metadata cs xmp_data exif_data = Inr ''No metadata present''"
    by (auto simp: format_image_metadata_def falsy_def)
next
  assume "\<not> (xmp_data \<in> {None, Some []} \<and> exif_data \<in> {None, Some []})"
  hence nf: "\<not> (falsy xmp_data \<and> falsy exif_data)"
    by (auto simp: falsy_def split: option.splits)
  show "format_image_metadata cs xmp_data exif_data \<noteq> Inr ''No metadata present''"
  proof (cases "run_sections (sections cs) (or_empty xmp_data) (or_empty exif_data) []")
    case (Inl err)
    thus ?thesis using nf by (simp add: format_image_metadata_def)
  next
    case (Inr out)
    then obtain t where "out = CHR 0xF0 # t"
      using run_sections_camera_first by blast
    hence "py_strip out = CHR 0xF0 # py_rstrip t"
      by (simp add: py_strip_Cons is_space_def)
    thus ?thesis using nf Inr by (simp add: format_image_metadata_def)
  qed
qed


theorem format_image_metadata_sentinel_witness:
  "format_image_metadata sample_constants None (Some []) = Inr ''No metadata present'' \<and>
   format_image_metadata sample_constants (Some [(''CreatorTool'', ''X'')]) None
     \<noteq> Inr ''No metadata present''"
proof -
  have a: "(None :: xmp option) \<in> {None, Some []} \<and> (Some [] :: exif option) \<in> {None, Some []}"
    by simp
  have b: "\<not> ((Some [(''CreatorTool'', ''X'')] :: xmp option) \<in> {None, Some []} \<and>
              (None :: exif option) \<in> {None, Some []})"
    by simp
  show ?thesis
    using format_image_metadata_sentinel [of None "Some []" sample_constants, THEN conjunct1, rule_format, OF a]
      format_image_metadata_sentinel [of "Some [(''CreatorTool'', ''X'')]" None sample_constants,
        THEN conjunct2, rule_format, OF b]
    by simp
qed

text \<open>
  C3, as the source has it. For records that are not both empty, the report is made of
  the six sections in their fixed order: camera settings, settings, tech details, crop
  info, post-processing, capture date. Each section that is emitted is its title line
  followed by its content, and a section whose content is the empty string adds
  nothing, neither title nor line. The camera section is never empty and so is always
  emitted. Equal records give equal reports.
\<close>

theorem format_image_metadata_sections:
  "(\<not> (xmp_data \<in> {None, Some []} \<and> exif_data \<in> {None, Some []}) \<and>
    format_camera_settings (or_empty xmp_data) (or_empty exif_data) = Inr c1 \<and>
    format_settings (or_empty xmp_data) (or_empty exif_data) = Inr c2 \<and>
    format_tech_details cs (or_empty xmp_data) (or_empty exif_data) = Inr c3 \<and>
    format_crop_info (or_empty xmp_data) (or_empty exif_data) = Inr c4 \<and>
    format_post_processing cs (or_empty xmp_data) (or_empty exif_data) = Inr c5 \<and>
    format_capture_date (or_empty xmp_data) (or_empty exif_data) = Inr c6 \<longrightarrow>
      c1 \<noteq> [] \<and>
      format_image_metadata cs xmp_data exif_data =
        Inr (py_strip (title_camera @ [NL] @ c1 @ [NL] @
                       section_block title_settings c2 @ section_block title_tech c3 @
                       section_block title_crop c4 @ section_block title_post c5 @
                       section_block title_date c6))) \<and>
   (xmp_data' = xmp_data \<and> exif_data' = exif_data \<longrightarrow>
      format_image_metadata cs xmp_data' exif_data' = format_image_metadata cs xmp_data exif_data)"
proof (intro conjI impI)
  assume a: "\<not> (xmp_data \<in> {None, Some []} \<and> exif_data \<in> {None, Some []}) \<and>
    format_camera_settings (or_empty xmp_data) (or_empty exif_data) = Inr c1 \<and>
    format_settings (or_empty xmp_data) (or_empty exif_data) = Inr c2 \<and>
    format_tech_details cs (or_empty xmp_data) (or_empty exif_data) = Inr c3 \<and>
    format_crop_info (or_empty xmp_data) (or_empty exif_data) = Inr c4 \<and>
    format_post_processing cs (or_empty xmp_data) (or_empty exif_data) = Inr c5 \<and>
    format_capture_date (or_empty xmp_data) (or_empty exif_data) = Inr c6"
  hence nf: "(falsy xmp_data \<and> falsy exif_data) = False"
    by (auto simp: falsy_def split: option.splits)
  show c1: "c1 \<noteq> []"
    using a format_camera_settings_nonempty [of "or_empty xmp_data" "or_empty exif_data"] by auto
  show "format_image_metadata cs xmp_data exif_data =
        Inr (py_strip (title_camera @ [NL] @ c1 @ [NL] @
                       section_block title_settings c2 @ section_block title_tech c3 @
                       section_block title_crop c4 @ section_block title_post c5 @
                       section_block title_date c6))"
    using a c1 unfolding format_image_metadata_def nf
    by (simp add: sections_def section_block_def)
qed simp

text \<open>
  C3 as stated fails for the camera section. For a record that holds a capture date and
  no \<^verbatim>\<open>Make\<close>, \<^verbatim>\<open>Model\<close> or \<^verbatim>\<open>LensModel\<close>, the report still carries the title of
  the camera section and its two lines.
\<close>

lemma sections_date_only:
  "format_camera_settings [] [(''DateTimeOriginal'', PStr ''2024:07:30 22:12:59'')] = Inr (''Camera: '' @ [NL] @ ''Lens:'')"
  "format_settings [] [(''DateTimeOriginal'', PStr ''2024:07:30 22:12:59'')] = Inr []"
  "format_tech_details sample_constants [] [(''DateTimeOriginal'', PStr ''2024:07:30 22:12:59'')] = Inr []"
  "format_crop_info [] [(''DateTimeOriginal'', PStr ''2024:07:30 22:12:59'')] = Inr []"
  "format_post_processing sample_constants [] [(''DateTimeOriginal'', PStr ''2024:07:30 22:12:59'')] = Inr []"
  "format_capture_date [] [(''DateTimeOriginal'', PStr ''2024:07:30 22:12:59'')] = Inr ''Captured on 2024-07-30 at 22:12:59''"
  by code_simp+

theorem camera_section_not_omitted:
  "format_image_metadata sample_constants None (Some [(''DateTimeOriginal'', PStr ''2024:07:30 22:12:59'')])
     = Inr (title_camera @ [NL] @ ''Camera: '' @ [NL] @ ''Lens:'' @ [NL] @
            title_date @ [NL] @ ''Captured on 2024-07-30 at 22:12:59'')"
  by code_simp


lemma sections_sample:
  "format_camera_settings sample_xmp sample_exif
     = Inr (''Camera: Canon EOS 200D'' @ [NL] @ ''Lens: EF85mm f/1.8 USM'')"
  "format_settings sample_xmp sample_exif
     = Inr (''Aperture: f/2.8'' @ [NL] @ ''Shutter Speed: 1/30 sec'' @ [NL] @ ''ISO: 400'' @ [NL] @
            ''Focal Length: 85.0 mm'')"
  "format_tech_details sample_constants sample_xmp sample_exif
     = Inr (''Shot in Manual mode'' @ [NL] @ ''White Balance: Auto'')"
  "format_crop_info sample_xmp sample_exif = Inr ''Left: 33.33% cropped''"
  "format_post_processing sample_constants sample_xmp sample_exif
     = Inr (''Edited in Adobe Lightroom 7.4.1 (Windows)'' @ [NL] @ ''Contrast: +5'' @ [NL] @
            ''Tone Curve Name: Linear'')"
  "format_capture_date sample_xmp sample_exif = Inr ''Captured on 2024-07-30 at 22:12:59''"
  by code_simp+

theorem format_image_metadata_sections_witness:
  "format_image_metadata sample_constants (Some sample_xmp) (Some sample_exif) =
     Inr (py_strip
       (title_camera @ [NL] @ (''Camera: Canon EOS 200D'' @ [NL] @ ''Lens: EF85mm f/1.8 USM'') @ [NL] @
        section_block title_settings
          (''Aperture: f/2.8'' @ [NL] @ ''Shutter Speed: 1/30 sec'' @ [NL] @ ''ISO: 400'' @ [NL] @
           ''Focal Length: 85.0 mm'') @
        section_block title_tech (''Shot in Manual mode'' @ [NL] @ ''White Balance: Auto'') @
        section_block title_crop ''Left: 33.33% cropped'' @
        section_block title_post
          (''Edited in Adobe Lightroom 7.4.1 (Windows)'' @ [NL] @ ''Contrast: +5'' @ [NL] @
           ''Tone Curve Name: Linear'') @
        section_block title_date ''Captured on 2024-07-30 at 22:12:59''))"
proof -
  have ne: "\<not> (Some sample_xmp \<in> {None, Some []} \<and> Some sample_exif \<in> {None, Some []})"
    by (simp add: sample_xmp_def)
  show ?thesis
    by (rule format_image_metadata_sections [THEN conjunct1, rule_format, THEN conjunct2])
       (use ne in \<open>simp add: or_empty_def sections_sample\<close>)
qed

section \<open>Lines of a text\<close>


lemma text_lines_line: "NL \<notin> set l \<Longrightarrow> text_lines (l @ NL # s) = l # text_lines s"
  by (induction l) auto





section \<open>Crop info\<close>

lemma join_lines_Cons: "join_lines (l # ls) = l @ NL # join_lines ls"
  by (simp add: join_lines_def)

lemma join_lines_Nil: "join_lines [] = []"
  by (simp add: join_lines_def)


lemma text_lines_join:
  "\<forall>l \<in> set ls. NL \<notin> set l \<Longrightarrow> text_lines (join_lines ls) = ls @ [[]]"
  by (induction ls) (simp_all add: join_lines_Cons join_lines_Nil text_lines_line)


















text \<open>The value that the specification names, and a right edge that is not cropped.\<close>

lemma format_crop_info_third:
  "format_crop_info [(''CropLeft'', ''0.3333'')] [] = Inr ''Left: 33.33% cropped''"
  by code_simp

lemma format_crop_info_example:
  "format_crop_info [(''CropLeft'', ''0.3333''), (''CropRight'', ''1'')] [] = Inr ''Left: 33.33% cropped''"
  by code_simp

lemma crop_percentage_third:
  "py_float ''0.3333'' = Inr (FNum (6004199023210345 / 18014398509481984))"
  "fmt_2f (crop_percentage ''CropLeft'' (FNum (6004199023210345 / 18014398509481984))) = ''33.33''"
  by code_simp+

section \<open>Post-processing\<close>







lemma post_entry_overflow:
  assumes "perspective_overflow key raw"
  shows "post_entry key raw = Inl OverflowError"
  using assms
  by (auto simp: post_entry_def post_try_def float_int_def perspective_overflow_def)



lemma display_key_examples:
  "display_key ''Clarity2012'' = ''Clarity''"
  "display_key ''PerspectiveScale'' = ''Perspective Scale''"
  "display_key ''ToneCurveName2012'' = ''Tone Curve Name''"
  "display_key ''Saturation'' = ''Saturation''"
  by code_simp+

lemma post_text_examples:
  "post_text ''Saturation'' ''0'' = []"
  "post_text ''Saturation'' ''-3'' = ''Saturation: -3'' @ [NL]"
  "post_text ''PerspectiveScale'' ''100'' = []"
  "post_text ''PerspectiveScale'' ''87'' = ''Perspective Scale: 87'' @ [NL]"
  "post_text ''ToneCurveName2012'' ''false'' = []"
  "post_text ''ToneCurveName2012'' ''Linear'' = ''Tone Curve Name: Linear'' @ [NL]"
  "post_text ''Clarity2012'' ''+42'' = ''Clarity: +42'' @ [NL]"
  by code_simp+







lemma format_post_processing_sample:
  "format_post_processing sample_constants sample_xmp []
     = Inr (''Edited in Adobe Lightroom 7.4.1 (Windows)'' @ [NL] @ ''Contrast: +5'' @ [NL] @
            ''Tone Curve Name: Linear'')"
  by code_simp

section \<open>Extraction\<close>

lemma map_of_replace:
  "map_of (map (\<lambda>(k', v'). if k' = k then (k', v) else (k', v')) d) x =
     (if x = k \<and> k \<in> fst ` set d then Some v else map_of d x)"
proof (induction d arbitrary: x)
  case Nil
  show ?case by simp
next
  case (Cons p d)
  obtain a b where p: "p = (a, b)" by (cases p)
  show ?case
  proof (cases "a = k")
    case True
    thus ?thesis by (simp add: p Cons.IH)
  next
    case False
    thus ?thesis by (simp add: p Cons.IH)
  qed
qed

lemma map_of_dict_set: "map_of (dict_set d k v) = (map_of d)(k \<mapsto> v)"
proof (cases "k \<in> fst ` set d")
  case False
  hence "map_of d k = None" by (simp add: map_of_eq_None_iff)
  thus ?thesis using False
    by (auto simp: dict_set_def fun_eq_iff map_add_def split: option.splits)
next
  case True
  thus ?thesis
    by (auto simp: dict_set_def fun_eq_iff map_of_replace)
qed

lemma map_of_named_tags_from:
  "map_of (foldl (\<lambda>d (k, v). case tags k of None \<Rightarrow> d | Some name \<Rightarrow> dict_set d name v) d items)
     = map_of d ++ map_of (rev (tag_items tags items))"
proof (induction items arbitrary: d)
  case Nil
  show ?case by (simp add: tag_items_def)
next
  case (Cons item items)
  obtain k v where item: "item = (k, v)" by (cases item)
  have ti: "tag_items tags (item # items) =
      (case tags k of None \<Rightarrow> [] | Some name \<Rightarrow> [(name, v)]) @ tag_items tags items"
    by (simp add: tag_items_def item)
  show ?case
    unfolding ti
    by (cases "tags k") (simp_all add: item Cons.IH map_of_dict_set map_add_def fun_eq_iff
          split: option.splits)
qed

lemma map_of_named_tags: "map_of (named_tags tags items) = map_of (rev (tag_items tags items))"
  using map_of_named_tags_from [of tags "[]" items] by (simp add: named_tags_def)

text \<open>
  C8, as the source has it. \<^verbatim>\<open>get_exif\<close> never raises. When the image cannot be opened,
  or reading its tag table raises, it prints the error and returns None. When there is no
  tag table, or an empty one, it returns None and prints nothing. Otherwise it returns the
  dict of the items whose numeric tag is in the table of names, each under its name (the
  later item taking a name that two tags share).
\<close>

theorem get_exif_outcomes:
  "(\<forall>e. Image_open ext image_path = Inl e \<longrightarrow>
        get_exif ext image_path = ([ErrorReadingExif image_path e], Inr None)) \<and>
   (\<forall>img e. Image_open ext image_path = Inr img \<and> getexif img = Inl e \<longrightarrow>
        get_exif ext image_path = ([ErrorReadingExif image_path e], Inr None)) \<and>
   (\<forall>img. Image_open ext image_path = Inr img \<and> getexif img \<in> {Inr None, Inr (Some [])} \<longrightarrow>
        get_exif ext image_path = ([], Inr None)) \<and>
   (\<forall>img items. Image_open ext image_path = Inr img \<and> getexif img = Inr (Some items) \<and>
        items \<noteq> [] \<longrightarrow>
        (\<exists>d. get_exif ext image_path = ([], Inr (Some d)) \<and>
             map_of d = map_of (rev (tag_items (TAGS ext) items)))) \<and>
   (\<exists>out r. get_exif ext image_path = (out, Inr r))"
proof (intro conjI allI impI)
  show "\<exists>out r. get_exif ext image_path = (out, Inr r)"
    by (cases "get_exif_try ext image_path") (simp_all add: get_exif_def)
qed (auto simp: get_exif_def get_exif_try_def map_of_named_tags)


lemma named_tags_sample:
  "named_tags sample_tags [(271, PStr ''Canon''), (272, PStr ''EOS 200D''), (37500, PStr ''x'')]
     = [(''Make'', PStr ''Canon''), (''Model'', PStr ''EOS 200D'')]"
  by (simp add: named_tags_def sample_tags_def dict_set_def)

theorem get_exif_outcomes_witness:
  "get_exif (sample_externals \<lparr>applist = [], getexif = Inr None\<rparr>) ''missing.jpg''
     = ([ErrorReadingExif ''missing.jpg'' (Other ''cannot identify image file'')], Inr None) \<and>
   get_exif (sample_externals \<lparr>applist = [], getexif = Inl (Other ''truncated'')\<rparr>) ''test.jpg''
     = ([ErrorReadingExif ''test.jpg'' (Other ''truncated'')], Inr None) \<and>
   (\<exists>d. get_exif (sample_externals
              \<lparr>applist = [],
                 getexif = Inr (Some [(271, PStr ''Canon''), (272, PStr ''EOS 200D''),
                                      (37500, PStr ''x'')])\<rparr>) ''test.jpg''
          = ([], Inr (Some d)) \<and>
        map_of d = map_of (rev (tag_items (TAGS (sample_externals
              \<lparr>applist = [],
                 getexif = Inr (Some [(271, PStr ''Canon''), (272, PStr ''EOS 200D''),
                                      (37500, PStr ''x'')])\<rparr>))
              [(271, PStr ''Canon''), (272, PStr ''EOS 200D''), (37500, PStr ''x'')])))"
proof (intro conjI)
  let ?none = "sample_externals \<lparr>applist = [], getexif = Inr None\<rparr>"
  let ?bad = "\<lparr>applist = [], getexif = Inl (Other ''truncated'')\<rparr>"
  let ?items = "[(271, PStr ''Canon''), (272, PStr ''EOS 200D''), (37500, PStr ''x'')]"
  let ?good = "\<lparr>applist = [], getexif = Inr (Some ?items)\<rparr>"
  have a: "Image_open ?none ''missing.jpg'' = Inl (Other ''cannot identify image file'')"
    by (simp add: sample_externals_def)
  from get_exif_outcomes [of ?none "''missing.jpg''", THEN conjunct1, rule_format, OF a]
  show "get_exif ?none ''missing.jpg''
     = ([ErrorReadingExif ''missing.jpg'' (Other ''cannot identify image file'')], Inr None)" .
  have b: "Image_open (sample_externals ?bad) ''test.jpg'' = Inr ?bad \<and>
      getexif ?bad = Inl (Other ''truncated'')"
    by (simp add: sample_externals_def)
  from get_exif_outcomes [of "sample_externals ?bad" "''test.jpg''", THEN conjunct2, THEN conjunct1,
      rule_format, OF b]
  show "get_exif (sample_externals ?bad) ''test.jpg''
     = ([ErrorReadingExif ''test.jpg'' (Other ''truncated'')], Inr None)" .
  have c: "Image_open (sample_externals ?good) ''test.jpg'' = Inr ?good \<and>
      getexif ?good = Inr (Some ?items) \<and> ?items \<noteq> []"
    by (simp add: sample_externals_def)
  from get_exif_outcomes [of "sample_externals ?good" "''test.jpg''", THEN conjunct2, THEN conjunct2,
      THEN conjunct2, THEN conjunct1, rule_format, OF c]
  show "\<exists>d. get_exif (sample_externals ?good) ''test.jpg'' = ([], Inr (Some d)) \<and>
        map_of d = map_of (rev (tag_items (TAGS (sample_externals ?good)) ?items))" .
qed

text \<open>
  C8 as stated fails where it says that a missing tag table is reported: nothing is
  printed then.
\<close>

theorem missing_tag_table_not_reported:
  "get_exif (sample_externals \<lparr>applist = [], getexif = Inr None\<rparr>) ''test.jpg'' = ([], Inr None)"
  by (simp add: get_exif_def get_exif_try_def sample_externals_def)

lemma get_exif_sample:
  "get_exif (sample_externals
       \<lparr>applist = [], getexif = Inr (Some [(271, PStr ''Canon''), (272, PStr ''EOS 200D'')])\<rparr>)
     ''test.jpg''
     = ([], Inr (Some [(''Make'', PStr ''Canon''), (''Model'', PStr ''EOS 200D'')]))"
  by (simp add: get_exif_def get_exif_try_def sample_externals_def named_tags_def sample_tags_def
        dict_set_def)

lemma find_SomeD: "find P xs = Some x \<Longrightarrow> x \<in> set xs \<and> P x"
  by (induction xs) (simp_all split: if_splits)

lemma find_xmp_segment_None:
  "find_xmp_segment segs = None \<longleftrightarrow> (\<forall>seg \<in> set segs. \<not> is_xmp_segment seg)"
  by (auto simp: find_xmp_segment_def find_None_iff)

lemma find_xmp_segment_Some:
  assumes "find_xmp_segment segs = Some content"
  shows "\<exists>seg \<in> set segs. is_xmp_segment seg \<and> snd seg = content"
proof -
  from assms obtain seg where "find is_xmp_segment segs = Some seg" "content = snd seg"
    unfolding find_xmp_segment_def by (cases "find is_xmp_segment segs") simp_all
  with find_SomeD [of is_xmp_segment segs seg] show ?thesis by blast
qed

lemma xmp_segment_nonempty: "is_xmp_segment seg \<Longrightarrow> snd seg \<noteq> []"
  by (cases seg; cases "snd seg") (simp_all add: is_xmp_segment_def starts_with_def xmp_marker_def)

text \<open>
  C9. When the image opens and none of its auxiliary segments is an \<^verbatim>\<open>APP1\<close> segment that
  begins with the XMP namespace marker, \<^verbatim>\<open>get_xmp_metadata\<close> returns None. When there is
  such a segment, the first one is read, and if the parser raises on the XML cut out of
  it, the call raises that exception: nothing takes it.
\<close>

theorem get_xmp_metadata_outcomes:
  "(\<forall>img. Image_open ext image_path = Inr img \<and>
           (\<forall>seg \<in> set (applist img). \<not> is_xmp_segment seg) \<longrightarrow>
        get_xmp_metadata ext image_path = Inr None) \<and>
   (\<forall>img. Image_open ext image_path = Inr img \<and>
           (\<exists>seg \<in> set (applist img). is_xmp_segment seg) \<longrightarrow>
        (\<exists>seg \<in> set (applist img). is_xmp_segment seg \<and>
           (\<forall>xmp_str e. py_decode (xmpmeta_slice (snd seg)) = Inr xmp_str \<and>
                 fromstring ext xmp_str = Inl e \<longrightarrow>
              get_xmp_metadata ext image_path = Inl e)))"
proof (intro conjI allI impI)
  fix img
  assume "Image_open ext image_path = Inr img \<and> (\<forall>seg \<in> set (applist img). \<not> is_xmp_segment seg)"
  thus "get_xmp_metadata ext image_path = Inr None"
    using find_xmp_segment_None [of "applist img"] by (simp add: get_xmp_metadata_def)
next
  fix img
  assume a: "Image_open ext image_path = Inr img \<and> (\<exists>seg \<in> set (applist img). is_xmp_segment seg)"
  then obtain content where f: "find_xmp_segment (applist img) = Some content"
    using find_xmp_segment_None [of "applist img"] by (cases "find_xmp_segment (applist img)") auto
  from find_xmp_segment_Some [OF f] obtain seg where seg: "seg \<in> set (applist img)"
    "is_xmp_segment seg" "snd seg = content"
    by blast
  have ne: "content \<noteq> []" using xmp_segment_nonempty [OF seg(2)] seg(3) by simp
  have "get_xmp_metadata ext image_path = Inl e"
    if "py_decode (xmpmeta_slice (snd seg)) = Inr xmp_str \<and> fromstring ext xmp_str = Inl e"
    for xmp_str e
    using that a f ne seg(3) by (simp add: get_xmp_metadata_def)
  with seg show "\<exists>seg \<in> set (applist img). is_xmp_segment seg \<and>
           (\<forall>xmp_str e. py_decode (xmpmeta_slice (snd seg)) = Inr xmp_str \<and>
                 fromstring ext xmp_str = Inl e \<longrightarrow>
              get_xmp_metadata ext image_path = Inl e)"
    by blast
qed


lemma broken_segment:
  "is_xmp_segment (''APP1'', xmp_marker @ broken_xml)"
  "py_decode (xmpmeta_slice (xmp_marker @ broken_xml)) = Inr broken_xml"
  "broken_xml \<noteq> sample_xml"
  by code_simp+

theorem get_xmp_metadata_outcomes_witness:
  "get_xmp_metadata (sample_externals \<lparr>applist = [(''APP0'', ''JFIF'')], getexif = Inr None\<rparr>)
     ''test.jpg'' = Inr None \<and>
   get_xmp_metadata
     (sample_externals \<lparr>applist = [(''APP1'', xmp_marker @ broken_xml)], getexif = Inr None\<rparr>)
     ''test.jpg'' = Inl (Other ''ParseError'')"
proof (intro conjI)
  let ?plain = "\<lparr>applist = [(''APP0'', ''JFIF'')], getexif = Inr None\<rparr>"
  let ?broken = "\<lparr>applist = [(''APP1'', xmp_marker @ broken_xml)], getexif = Inr None\<rparr>"
  have a: "Image_open (sample_externals ?plain) ''test.jpg'' = Inr ?plain \<and>
      (\<forall>seg \<in> set (applist ?plain). \<not> is_xmp_segment seg)"
    by (simp add: sample_externals_def is_xmp_segment_def)
  from get_xmp_metadata_outcomes [of "sample_externals ?plain" "''test.jpg''", THEN conjunct1,
      rule_format, OF a]
  show "get_xmp_metadata (sample_externals ?plain) ''test.jpg'' = Inr None" .
  have b: "Image_open (sample_externals ?broken) ''test.jpg'' = Inr ?broken \<and>
      (\<exists>seg \<in> set (applist ?broken). is_xmp_segment seg)"
    by (simp add: sample_externals_def broken_segment(1))
  from get_xmp_metadata_outcomes [of "sample_externals ?broken" "''test.jpg''", THEN conjunct2,
      rule_format, OF b]
  obtain seg where seg: "seg \<in> set (applist ?broken)"
    and all: "\<forall>xmp_str e. py_decode (xmpmeta_slice (snd seg)) = Inr xmp_str \<and>
      fromstring (sample_externals ?broken) xmp_str = Inl e \<longrightarrow>
      get_xmp_metadata (sample_externals ?broken) ''test.jpg'' = Inl e"
    by blast
  from seg have "snd seg = xmp_marker @ broken_xml" by simp
  have "fromstring (sample_externals ?broken) broken_xml = Inl (Other ''ParseError'')"
    by (simp add: sample_externals_def broken_segment(3))
  with all [rule_format, of broken_xml "Other ''ParseError''"] broken_segment(2)
    \<open>snd seg = xmp_marker @ broken_xml\<close>
  show "get_xmp_metadata (sample_externals ?broken) ''test.jpg'' = Inl (Other ''ParseError'')"
    by simp
qed

text \<open>The repository's own test of the XMP reader, with the tree that the parser gives.\<close>

lemma get_xmp_metadata_sample:
  "get_xmp_metadata
     (sample_externals \<lparr>applist = [(''APP1'', xmp_marker @ sample_xml)], getexif = Inr None\<rparr>)
     ''test.jpg''
     = Inr (Some [(''about'', []), (''CreatorTool'', ''Adobe Lightroom'')])"
  by code_simp


section \<open>The camera section: the pattern and the collapse of repeated words\<close>

text \<open>
  The substitution of the source, \<^verbatim>\<open>re.sub(r"\b(\w+)(\s+\1)+\b", r"\1", camera)\<close>, is
  followed through the backtracking matcher and shown to be \<open>collapse_words\<close> on every
  text.
\<close>

subsection \<open>The matcher on the parts of the pattern\<close>







declare rmatch.simps [simp del]


lemma rest_adv [simp]: "rest (adv s j) = drop j (rest s)"
  and seen_adv [simp]: "seen (adv s j) = seen s @ take j (rest s)"
  and groups_adv [simp]: "groups (adv s j) = groups s"
  by (simp_all add: adv_def)
















subsection \<open>A match of the whole pattern at one position\<close>










subsection \<open>Words, gaps and the collapse\<close>





lemma tokens_at_word:
  assumes "r \<noteq> []" "is_word (hd r)"
  shows "tokens r = Word (takeWhile is_word r) # tokens (dropWhile is_word r)"
  using assms by (cases r) simp_all















subsection \<open>The camera and lens lines\<close>












text \<open>The pattern itself on the example, and on words that only look repeated.\<close>

lemma re_sub_examples:
  "re_sub duplicate_words [Ref 1] ''Canon Canon'' = ''Canon''"
  "re_sub duplicate_words [Ref 1] ''Canon Canon EOS'' = ''Canon EOS''"
  "re_sub duplicate_words [Ref 1] ''EOS 200D 200D  200D'' = ''EOS 200D''"
  "re_sub duplicate_words [Ref 1] ''Canon Canons'' = ''Canon Canons''"
  "re_sub duplicate_words [Ref 1] ''Canon-X Canon-X'' = ''Canon-X Canon-X''"
  by code_simp+

end
